theory Spec2Isabelle
  imports Complex_Main
begin

section \<open>JavaScript values used by the dashboard\<close>

text \<open>
  A JavaScript number is an IEEE double. No function of this repository does arithmetic on
  the store metrics or coordinates: they are parsed, stored, copied and compared with
  \<^verbatim>\<open>===\<close>. A number is therefore modelled by the value it denotes, with the three
  special values kept apart; \<open>+0\<close> and \<open>-0\<close> are one value, as they are for
  \<^verbatim>\<open>===\<close>.
\<close>

datatype number = NaN | PosInfinity | NegInfinity | Finite real

text \<open>\<^verbatim>\<open>a === b\<close> on numbers: \<open>NaN\<close> is equal to nothing, not even to itself.\<close>

definition strict_eq :: "number \<Rightarrow> number \<Rightarrow> bool" where
  "strict_eq a b = (a \<noteq> NaN \<and> b \<noteq> NaN \<and> a = b)"

text \<open>
  Template literals render an array index (a non-negative integer) in decimal, without
  leading zeros.
\<close>

definition digit_char :: "nat \<Rightarrow> char" where
  "digit_char d = char_of (48 + d)"

fun string_of_nat :: "nat \<Rightarrow> string" where
  "string_of_nat n =
     (if n < 10 then [digit_char n] else string_of_nat (n div 10) @ [digit_char (n mod 10)])"

declare string_of_nat.simps [simp del]

text \<open>Reading a decimal string back, used only to show that the rendering is injective.\<close>

definition digit_val :: "char \<Rightarrow> nat" where
  "digit_val c = of_char c - 48"

definition nat_of_string :: "string \<Rightarrow> nat" where
  "nat_of_string s = foldl (\<lambda>acc c. 10 * acc + digit_val c) 0 s"

text \<open>
  Truthiness of an optional string (\<^verbatim>\<open>if (x)\<close>): \<^verbatim>\<open>undefined\<close>, \<^verbatim>\<open>null\<close> and the
  empty string are falsy, every other string is truthy.
\<close>

fun truthy :: "string option \<Rightarrow> bool" where
  "truthy None = False"
| "truthy (Some s) = (s \<noteq> [])"

text \<open>
  \<^verbatim>\<open>s.trim()\<close> is falsy exactly when \<open>s\<close> consists of white space only. A \<open>char\<close>
  is one code unit below 256; the white space characters in that range are TAB, LF, VT,
  FF, CR, SPACE and NBSP.
\<close>

definition is_space :: "char \<Rightarrow> bool" where
  "is_space c = (of_char c \<in> {9, 10, 11, 12, 13, 32, 160 :: nat})"

definition trim :: "string \<Rightarrow> string" where
  "trim s = rev (dropWhile is_space (rev (dropWhile is_space s)))"


section \<open>types.ts\<close>

text \<open>
  \<^verbatim>\<open>StoreData\<close> has the two fields of \<^verbatim>\<open>LatLng\<close> and five more; TypeScript types are
  structural, so the record of a store extends the record of a coordinate.
\<close>

record LatLng =
  latitude :: number
  longitude :: number

record StoreData = LatLng +
  id' :: string
  city :: string
  sales :: number
  profit :: number
  employees :: number

datatype role = user | model | system

text \<open>\<^verbatim>\<open>parts: Part[] | string\<close>; a structured part is kept by its text.\<close>

datatype parts = Str string | Parts "string list"

text \<open>A \<^verbatim>\<open>Date\<close> is the number of milliseconds the clock showed.\<close>

record ChatMessage =
  role :: role
  parts :: parts
  timestamp :: nat
  groundingUris :: "string list option"
  functionCalls :: "string list option"


section \<open>FileUpload: \<^verbatim>\<open>parseExcelFile\<close>\<close>

text \<open>
  One object of \<^verbatim>\<open>XLSX.utils.sheet_to_json\<close>: the cells of a data row under the header
  names. The numeric cells have type \<^verbatim>\<open>any\<close> (type \<open>'c\<close>) and go through the built-in
  \<^verbatim>\<open>parseFloat\<close>, a parameter of the model.
\<close>

record 'c row =
  City :: string
  Latitude :: 'c
  Longitude :: 'c
  Sales :: 'c
  Profit :: 'c
  Employees :: 'c

definition read_error_msg :: string where
  "read_error_msg = ''Error reading file.''"

definition parse_error_msg :: string where
  "parse_error_msg = ''Error parsing Excel file. Please ensure it's a valid Excel file with expected columns (City, Latitude, Longitude, Sales, Profit, Employees).''"

text \<open>The callback of \<^verbatim>\<open>json.map((row, index) => ...)\<close>.\<close>

definition store_of_row :: "('c \<Rightarrow> number) \<Rightarrow> 'c row \<Rightarrow> nat \<Rightarrow> StoreData" where
  "store_of_row parseFloat r index =
     \<lparr> latitude = parseFloat (Latitude r),
       longitude = parseFloat (Longitude r),
       id' = ''store-'' @ string_of_nat index,
       city = City r,
       sales = parseFloat (Sales r),
       profit = parseFloat (Profit r),
       employees = parseFloat (Employees r) \<rparr>"

text \<open>\<^verbatim>\<open>Array.prototype.map\<close> with the index as second argument.\<close>

fun map_index :: "('a \<Rightarrow> nat \<Rightarrow> 'b) \<Rightarrow> nat \<Rightarrow> 'a list \<Rightarrow> 'b list" where
  "map_index f i [] = []"
| "map_index f i (x # xs) = f x i # map_index f (Suc i) xs"

text \<open>
  \<^verbatim>\<open>parseExcelFile\<close>. The file reader (\<open>readAsArrayBuffer\<close>: \<open>None\<close> when \<^verbatim>\<open>onerror\<close>
  fires) and the spreadsheet library (\<open>sheet_rows\<close>: \<^verbatim>\<open>XLSX.read\<close>, the first sheet and
  \<^verbatim>\<open>sheet_to_json\<close>; \<open>None\<close> when one of them throws) are external and are parameters.
  The promise resolves with \<open>Inr\<close> and rejects with \<open>Inl\<close>.
\<close>

definition parseExcelFile ::
  "('f \<Rightarrow> 'b option) \<Rightarrow> ('b \<Rightarrow> 'c row list option) \<Rightarrow> ('c \<Rightarrow> number) \<Rightarrow> 'f
     \<Rightarrow> string + StoreData list" where
  "parseExcelFile readAsArrayBuffer sheet_rows parseFloat file =
     (case readAsArrayBuffer file of
        None \<Rightarrow> Inl read_error_msg
      | Some data \<Rightarrow>
          (case sheet_rows data of
             None \<Rightarrow> Inl parse_error_msg
           | Some json \<Rightarrow> Inr (map_index (store_of_row parseFloat) 0 json)))"


section \<open>App: the application shell\<close>

record App =
  stores :: "StoreData list"
  selectedStore :: "StoreData option"
  userLocation :: "LatLng option"
  showGeolocationPrompt :: bool

definition App_initial :: App where
  "App_initial =
     \<lparr> stores = [], selectedStore = None, userLocation = None, showGeolocationPrompt = True \<rparr>"

text \<open>The two callbacks given to \<^verbatim>\<open>getCurrentPosition\<close>.\<close>

definition geolocation_success :: "LatLng \<Rightarrow> App \<Rightarrow> App" where
  "geolocation_success coords app =
     app\<lparr> userLocation := Some \<lparr> latitude = latitude coords, longitude = longitude coords \<rparr>,
          showGeolocationPrompt := False \<rparr>"

definition geolocation_error :: "App \<Rightarrow> App" where
  "geolocation_error app = app\<lparr> showGeolocationPrompt := False \<rparr>"

definition handleDataUpload :: "StoreData list \<Rightarrow> App \<Rightarrow> App" where
  "handleDataUpload data app = app\<lparr> stores := data, selectedStore := None \<rparr>"

definition handleStoreSelect :: "StoreData option \<Rightarrow> App \<Rightarrow> App" where
  "handleStoreSelect store app = app\<lparr> selectedStore := store \<rparr>"

definition clearSelection :: "App \<Rightarrow> App" where
  "clearSelection app = app\<lparr> selectedStore := None \<rparr>"

text \<open>
  \<^verbatim>\<open>FileUpload.handleUpload\<close> as the shell sees it: \<^verbatim>\<open>onDataUpload\<close> is called only
  when the promise of \<^verbatim>\<open>parseExcelFile\<close> resolves; a rejection becomes the error text of
  the upload widget and leaves the shell alone.
\<close>

definition handleUpload :: "string + StoreData list \<Rightarrow> App \<Rightarrow> string option \<times> App" where
  "handleUpload parsed app =
     (case parsed of
        Inr data \<Rightarrow> (None, handleDataUpload data app)
      | Inl err \<Rightarrow> (Some err, app))"


section \<open>Chatbot: \<^verbatim>\<open>extractGroundingUris\<close>\<close>

text \<open>
  The part of the provider's \<^verbatim>\<open>GenerateContentResponse\<close> that the component reads. An
  optional field is an \<open>option\<close>. \<open>placeAnswerSources\<close> is \<open>Some\<close> exactly when the
  field holds an array (\<^verbatim>\<open>Array.isArray\<close>).
\<close>

record ReviewSnippet =
  snippet_uri :: "string option"

record PlaceAnswerSource =
  reviewSnippets :: "ReviewSnippet list option"

record GroundingChunkWeb =
  web_uri :: "string option"

record GroundingChunkMaps =
  maps_uri :: "string option"
  placeAnswerSources :: "PlaceAnswerSource list option"

record GroundingChunk =
  web :: "GroundingChunkWeb option"
  maps :: "GroundingChunkMaps option"

record GroundingMetadata =
  groundingChunks :: "GroundingChunk list option"

record Candidate =
  groundingMetadata :: "GroundingMetadata option"

record GenerateContentResponse =
  candidates :: "Candidate list option"
  text' :: "string option"

text \<open>\<^verbatim>\<open>if (u) uris.push(u)\<close>\<close>

definition push_if_truthy :: "string list \<Rightarrow> string option \<Rightarrow> string list" where
  "push_if_truthy uris u =
     (case u of None \<Rightarrow> uris | Some s \<Rightarrow> if truthy (Some s) then uris @ [s] else uris)"

text \<open>The innermost loop, over the review snippets of one source.\<close>

definition snippets_loop :: "string list \<Rightarrow> ReviewSnippet list \<Rightarrow> string list" where
  "snippets_loop uris snippets = foldl (\<lambda>acc snippet. push_if_truthy acc (snippet_uri snippet)) uris snippets"

text \<open>The loop over \<^verbatim>\<open>chunk.maps.placeAnswerSources\<close>.\<close>

definition sources_loop :: "string list \<Rightarrow> PlaceAnswerSource list \<Rightarrow> string list" where
  "sources_loop uris sources =
     foldl (\<lambda>acc source.
              case reviewSnippets source of None \<Rightarrow> acc | Some snippets \<Rightarrow> snippets_loop acc snippets)
       uris sources"

text \<open>The body of the loop over the grounding chunks.\<close>

definition chunk_step :: "string list \<Rightarrow> GroundingChunk \<Rightarrow> string list" where
  "chunk_step uris chunk =
     (let uris1 = push_if_truthy uris (case web chunk of None \<Rightarrow> None | Some w \<Rightarrow> web_uri w);
          uris2 = push_if_truthy uris1 (case maps chunk of None \<Rightarrow> None | Some m \<Rightarrow> maps_uri m)
      in case maps chunk of
           None \<Rightarrow> uris2
         | Some m \<Rightarrow>
             (case placeAnswerSources m of
                None \<Rightarrow> uris2
              | Some sources \<Rightarrow> sources_loop uris2 sources))"

text \<open>\<^verbatim>\<open>response.candidates?.[0]?.groundingMetadata?.groundingChunks\<close>\<close>

definition first_groundingChunks :: "GenerateContentResponse \<Rightarrow> GroundingChunk list option" where
  "first_groundingChunks response =
     (case candidates response of
        None \<Rightarrow> None
      | Some [] \<Rightarrow> None
      | Some (c # _) \<Rightarrow>
          (case groundingMetadata c of
             None \<Rightarrow> None
           | Some gm \<Rightarrow> groundingChunks gm))"

definition extractGroundingUris :: "GenerateContentResponse \<Rightarrow> string list" where
  "extractGroundingUris response =
     (case first_groundingChunks response of
        None \<Rightarrow> []
      | Some chunks \<Rightarrow> foldl chunk_step [] chunks)"


section \<open>Chatbot: the component\<close>

text \<open>What \<^verbatim>\<open>sendMessageStream\<close> is called with.\<close>

record RetrievalConfig =
  latLng :: LatLng

record ToolConfig =
  retrievalConfig :: RetrievalConfig

record SendMessageConfig =
  toolConfig :: "ToolConfig option"

record SendMessageParameters =
  message :: string
  config :: SendMessageConfig

datatype Tool = googleSearch | googleMaps

text \<open>
  The session object of the provider's SDK: what it was created with, and the requests the
  component has sent through it, oldest first.
\<close>

record Chat =
  chat_model :: string
  tools :: "Tool list"
  sent :: "SendMessageParameters list"

record Chatbot =
  messages :: "ChatMessage list"
  inputMessage :: string
  loading :: bool
  chatRef :: "Chat option"

definition Chatbot_initial :: Chatbot where
  "Chatbot_initial = \<lparr> messages = [], inputMessage = [], loading = False, chatRef = None \<rparr>"

definition key_missing_msg :: string where
  "key_missing_msg = ''Error: API Key missing. AI assistant cannot function.''"

definition init_failed_msg :: string where
  "init_failed_msg = ''Error: Could not initialize AI assistant. Check console for details.''"

definition apology_msg :: string where
  "apology_msg = ''I apologize, but I encountered an error while processing your request. Please try again.''"

definition model_message :: "string \<Rightarrow> nat \<Rightarrow> ChatMessage" where
  "model_message txt now =
     \<lparr> role = model, parts = Str txt, timestamp = now, groundingUris = None, functionCalls = None \<rparr>"

definition user_message :: "string \<Rightarrow> nat \<Rightarrow> ChatMessage" where
  "user_message txt now =
     \<lparr> role = user, parts = Str txt, timestamp = now, groundingUris = None, functionCalls = None \<rparr>"

text \<open>
  The effect that runs once on mount. \<open>API_KEY\<close> is \<^verbatim>\<open>process.env.API_KEY\<close>;
  \<open>GEMINI_MODEL_FLASH\<close> is a constant of a module that is not part of the sources at hand;
  \<open>sdk_ok\<close> says whether the SDK's constructor and \<^verbatim>\<open>chats.create\<close> return for this key
  (when they throw, the \<^verbatim>\<open>catch\<close> branch runs).
\<close>

definition init_effect :: "string option \<Rightarrow> string \<Rightarrow> (string \<Rightarrow> bool) \<Rightarrow> nat \<Rightarrow> Chatbot \<Rightarrow> Chatbot" where
  "init_effect API_KEY GEMINI_MODEL_FLASH sdk_ok now st =
     (case API_KEY of
        None \<Rightarrow> st\<lparr> messages := messages st @ [model_message key_missing_msg now] \<rparr>
      | Some key \<Rightarrow>
          if \<not> truthy (Some key)
          then st\<lparr> messages := messages st @ [model_message key_missing_msg now] \<rparr>
          else if sdk_ok key
          then st\<lparr> chatRef := Some \<lparr> chat_model = GEMINI_MODEL_FLASH,
                                     tools = [googleSearch, googleMaps], sent = [] \<rparr> \<rparr>
          else st\<lparr> messages := messages st @ [model_message init_failed_msg now] \<rparr>)"

definition mount :: "string option \<Rightarrow> string \<Rightarrow> (string \<Rightarrow> bool) \<Rightarrow> nat \<Rightarrow> Chatbot" where
  "mount API_KEY GEMINI_MODEL_FLASH sdk_ok now =
     init_effect API_KEY GEMINI_MODEL_FLASH sdk_ok now Chatbot_initial"

text \<open>The \<^verbatim>\<open>disabled\<close> attributes of the text input and of the send button.\<close>

definition input_disabled :: "Chatbot \<Rightarrow> bool" where
  "input_disabled st = (loading st \<or> chatRef st = None)"

definition send_disabled :: "Chatbot \<Rightarrow> bool" where
  "send_disabled st = (trim (inputMessage st) = [] \<or> loading st \<or> chatRef st = None)"

text \<open>The location bias: the selected store first, then the user's position.\<close>

definition retrievalConfig_for :: "StoreData option \<Rightarrow> LatLng option \<Rightarrow> RetrievalConfig option" where
  "retrievalConfig_for selected location =
     (case selected of
        Some s \<Rightarrow> Some \<lparr> latLng = \<lparr> latitude = latitude s, longitude = longitude s \<rparr> \<rparr>
      | None \<Rightarrow>
          (case location of
             Some l \<Rightarrow> Some \<lparr> latLng = l \<rparr>
           | None \<Rightarrow> None))"

definition sendMessageConfig :: "StoreData option \<Rightarrow> LatLng option \<Rightarrow> SendMessageConfig" where
  "sendMessageConfig selected location =
     (case retrievalConfig_for selected location of
        None \<Rightarrow> \<lparr> toolConfig = None \<rparr>
      | Some rc \<Rightarrow> \<lparr> toolConfig = Some \<lparr> retrievalConfig = rc \<rparr> \<rparr>)"

text \<open>
  \<^verbatim>\<open>[...new Set(xs)]\<close>: a set keeps its elements in insertion order, and adding an element
  it already holds changes nothing.
\<close>

definition set_add :: "'a list \<Rightarrow> 'a \<Rightarrow> 'a list" where
  "set_add s x = (if x \<in> set s then s else s @ [x])"

definition new_Set :: "'a list \<Rightarrow> 'a list" where
  "new_Set xs = foldl set_add [] xs"

text \<open>
  The state update after each chunk: the last message, when there is one and it is the
  model's, gets the running text and the running citation list.
\<close>

definition update_last :: "string \<Rightarrow> string list \<Rightarrow> ChatMessage list \<Rightarrow> ChatMessage list" where
  "update_last fullResponseText allGroundingUris prevMessages =
     (if prevMessages \<noteq> [] \<and> role (last prevMessages) = model
      then prevMessages[length prevMessages - 1 :=
             (last prevMessages)\<lparr> parts := Str fullResponseText,
                                   groundingUris := Some allGroundingUris \<rparr>]
      else prevMessages)"

text \<open>
  The state update of the \<^verbatim>\<open>catch\<close> branch. On an empty array JavaScript would set the
  property \<^verbatim>\<open>-1\<close> and leave the elements as they are.
\<close>

definition replace_last :: "ChatMessage \<Rightarrow> ChatMessage list \<Rightarrow> ChatMessage list" where
  "replace_last m prevMessages =
     (if prevMessages = [] then prevMessages
      else prevMessages[length prevMessages - 1 := m])"

text \<open>
  The \<^verbatim>\<open>for await\<close> loop: the running text, the running citation list and the message
  list, over the chunks that arrive.
\<close>

fun stream_loop ::
  "string \<Rightarrow> string list \<Rightarrow> ChatMessage list \<Rightarrow> GenerateContentResponse list
     \<Rightarrow> string \<times> string list \<times> ChatMessage list" where
  "stream_loop fullResponseText allGroundingUris msgs [] = (fullResponseText, allGroundingUris, msgs)"
| "stream_loop fullResponseText allGroundingUris msgs (chunk # rest) =
     (let fullResponseText' =
            (case text' chunk of
               None \<Rightarrow> fullResponseText
             | Some t \<Rightarrow> if truthy (Some t) then fullResponseText @ t else fullResponseText);
          chunkUris = extractGroundingUris chunk;
          allGroundingUris' =
            (if length chunkUris > 0 then new_Set (allGroundingUris @ chunkUris)
             else allGroundingUris)
      in stream_loop fullResponseText' allGroundingUris'
           (update_last fullResponseText' allGroundingUris' msgs) rest)"

text \<open>
  How a streaming call ends: the stream is exhausted, or the call or the iteration throws
  (after the chunks received so far).
\<close>

datatype stream_end = Completed | Errored

text \<open>
  \<^verbatim>\<open>handleSendMessage\<close>, from the click to the \<^verbatim>\<open>finally\<close> block. \<open>selected\<close> and
  \<open>location\<close> are the props; \<open>reply\<close> is what the provider answers to the one request;
  \<open>t_send\<close> and \<open>t_fail\<close> are the clock when the messages are appended and when the
  \<^verbatim>\<open>catch\<close> branch runs.
\<close>

definition handleSendMessage ::
  "StoreData option \<Rightarrow> LatLng option \<Rightarrow> nat \<Rightarrow> GenerateContentResponse list \<times> stream_end \<Rightarrow> nat
     \<Rightarrow> Chatbot \<Rightarrow> Chatbot" where
  "handleSendMessage selected location t_send reply t_fail st =
     (case chatRef st of
        None \<Rightarrow> st
      | Some chat \<Rightarrow>
          if trim (inputMessage st) = [] \<or> loading st then st
          else
            let userQuery = inputMessage st;
                msgs1 = messages st @ [user_message userQuery t_send, model_message ''...'' t_send];
                request = \<lparr> message = userQuery, config = sendMessageConfig selected location \<rparr>;
                chat' = chat\<lparr> sent := sent chat @ [request] \<rparr>;
                (fullResponseText, allGroundingUris, msgs2) = stream_loop [] [] msgs1 (fst reply);
                msgs3 = (case snd reply of
                           Completed \<Rightarrow> msgs2
                         | Errored \<Rightarrow> replace_last (model_message apology_msg t_fail) msgs2)
            in \<lparr> messages = msgs3, inputMessage = [], loading = False, chatRef = Some chat' \<rparr>)"

text \<open>The citation links a message is rendered with: none when the field is absent.\<close>

definition rendered_uris :: "ChatMessage \<Rightarrow> string list" where
  "rendered_uris msg = (case groundingUris msg of None \<Rightarrow> [] | Some uris \<Rightarrow> uris)"

text \<open>The chat component is rendered with the shell's selection and location as props.\<close>

definition App_send ::
  "App \<Rightarrow> nat \<Rightarrow> GenerateContentResponse list \<times> stream_end \<Rightarrow> nat \<Rightarrow> Chatbot \<Rightarrow> Chatbot" where
  "App_send app = handleSendMessage (selectedStore app) (userLocation app)"


section \<open>The properties, as the specification words them\<close>

text \<open>
  Removing duplicates from a list, keeping the first occurrence of each element in the
  order of first appearance.
\<close>

fun first_occurrences :: "'a list \<Rightarrow> 'a list" where
  "first_occurrences [] = []"
| "first_occurrences (x # xs) = x # first_occurrences (filter (\<lambda>y. y \<noteq> x) xs)"

text \<open>A URI that is present: the field is there and is not the empty string.\<close>

definition present :: "string option \<Rightarrow> string list" where
  "present u = (case u of None \<Rightarrow> [] | Some s \<Rightarrow> if s = [] then [] else [s])"

definition spec_source_uris :: "PlaceAnswerSource \<Rightarrow> string list" where
  "spec_source_uris source =
     (case reviewSnippets source of
        None \<Rightarrow> []
      | Some snippets \<Rightarrow> concat (map (\<lambda>snippet. present (snippet_uri snippet)) snippets))"

definition spec_chunk_uris :: "GroundingChunk \<Rightarrow> string list" where
  "spec_chunk_uris chunk =
     (case web chunk of None \<Rightarrow> [] | Some w \<Rightarrow> present (web_uri w)) @
     (case maps chunk of None \<Rightarrow> [] | Some m \<Rightarrow> present (maps_uri m)) @
     (case maps chunk of
        None \<Rightarrow> []
      | Some m \<Rightarrow>
          (case placeAnswerSources m of
             None \<Rightarrow> []
           | Some sources \<Rightarrow> concat (map spec_source_uris sources)))"

definition spec_candidate_uris :: "Candidate \<Rightarrow> string list" where
  "spec_candidate_uris c =
     (case groundingMetadata c of
        None \<Rightarrow> []
      | Some gm \<Rightarrow>
          (case groundingChunks gm of
             None \<Rightarrow> []
           | Some chunks \<Rightarrow> concat (map spec_chunk_uris chunks)))"


section \<open>The scenario of the specification\<close>

text \<open>
  The two-row sheet of the specification, with cells that are numbers already
  (\<^verbatim>\<open>parseFloat\<close> returns such a cell as it is), the stores it yields and a position of
  the browser.
\<close>

definition jakarta_row :: "number row" where
  "jakarta_row = \<lparr> City = ''Jakarta'', Latitude = Finite (-6.2), Longitude = Finite 106.8,
      Sales = Finite 1000, Profit = Finite 200, Employees = Finite 5 \<rparr>"

definition bandung_row :: "number row" where
  "bandung_row = \<lparr> City = ''Bandung'', Latitude = Finite (-6.9), Longitude = Finite 107.6,
      Sales = Finite 800, Profit = Finite 150, Employees = Finite 4 \<rparr>"

definition jakarta :: StoreData where
  "jakarta = \<lparr> latitude = Finite (-6.2), longitude = Finite 106.8, id' = ''store-0'',
      city = ''Jakarta'', sales = Finite 1000, profit = Finite 200, employees = Finite 5 \<rparr>"

definition bandung :: StoreData where
  "bandung = \<lparr> latitude = Finite (-6.9), longitude = Finite 107.6, id' = ''store-1'',
      city = ''Bandung'', sales = Finite 800, profit = Finite 150, employees = Finite 4 \<rparr>"

definition browser_position :: LatLng where
  "browser_position = \<lparr> latitude = Finite (-7.25), longitude = Finite 112.75 \<rparr>"

text \<open>A mounted chat component with a session and a typed question.\<close>

definition ready_chatbot :: Chatbot where
  "ready_chatbot =
     (mount (Some ''k3y'') ''flash'' (\<lambda>_. True) 0)\<lparr> inputMessage := ''Which store is closest?'' \<rparr>"

text \<open>Two chunks of a stream whose citations overlap.\<close>

definition web_chunk :: "string \<Rightarrow> GroundingChunk" where
  "web_chunk u = \<lparr> web = Some \<lparr> web_uri = Some u \<rparr>, maps = None \<rparr>"

definition response_of :: "string \<Rightarrow> GroundingChunk list \<Rightarrow> GenerateContentResponse" where
  "response_of t chunks =
     \<lparr> candidates = Some [\<lparr> groundingMetadata = Some \<lparr> groundingChunks = Some chunks \<rparr> \<rparr>],
       text' = Some t \<rparr>"

definition chunk_one :: GenerateContentResponse where
  "chunk_one = response_of ''Jakarta '' [web_chunk ''https://a.example/x'', web_chunk ''https://b.example/y'']"

definition chunk_two :: GenerateContentResponse where
  "chunk_two = response_of ''leads.''
     [web_chunk ''https://b.example/y'', web_chunk ''https://c.example/z'', web_chunk ''https://a.example/x'']"


section \<open>MapVisualization: the vendor's objects\<close>

text \<open>
  The mapping SDK is external; \<^verbatim>\<open>src/types/google-maps.d.ts\<close> declares what the
  component uses of it. An object of the SDK is modelled by what the component gives it and
  reads back: a marker returns from \<^verbatim>\<open>getTitle\<close> and \<^verbatim>\<open>getPosition\<close> the title and the
  position it was constructed with, and keeps the icon set last.
\<close>

record LatLngLiteral =
  lat :: number
  lng :: number

datatype SymbolPath = CIRCLE | FORWARD_CLOSED_ARROW | FORWARD_OPEN_ARROW
  | BACKWARD_CLOSED_ARROW | BACKWARD_OPEN_ARROW

record MarkerIcon =
  path :: SymbolPath
  fillColor :: string
  fillOpacity :: number
  strokeWeight :: number
  scale :: number

text \<open>
  \<open>click_store\<close> is the store that the marker's click listener reports upward and shows
  in the info window.
\<close>

record Marker =
  position :: "LatLngLiteral option"
  title :: string
  icon :: MarkerIcon
  click_store :: StoreData

text \<open>What the map surface was last asked to show.\<close>

datatype view = DefaultView | FitBounds "LatLngLiteral list" | PanTo LatLngLiteral

record GoogleMap =
  view :: view

text \<open>
  The info window: the store whose metrics its content shows (the HTML is a fixed template
  over the city and the three metrics) and the index, in \<^verbatim>\<open>markersRef\<close>, of the marker
  it is open at.
\<close>

record InfoWindow =
  content :: "StoreData option"
  anchor :: "nat option"


section \<open>MapVisualization: the SDK load\<close>

text \<open>
  A function stored in \<^verbatim>\<open>window.gm_authFailure\<close>: one that other code installed, or the
  closure that load attempt \<open>k\<close> of this module installed.
\<close>

datatype hook = Foreign nat | Override nat

datatype promise_state = Pending | Resolved | Rejected string

text \<open>
  One execution of the promise body in \<^verbatim>\<open>loadGoogleMapsScript\<close>: the component instance
  whose \<^verbatim>\<open>setMapLoadError\<close> its handlers call, the instances that chained
  \<^verbatim>\<open>.then(initMap)\<close> on its promise, its flag and the state of its promise.
\<close>

record load_attempt =
  owner :: nat
  subscribers :: "nat list"
  isAuthFailureTriggered :: bool
  promise :: promise_state

record script =
  script_id :: string
  src :: string

text \<open>
  The module's two globals, the part of \<^verbatim>\<open>window\<close> and of the document that the module
  touches, the load attempts made so far (attempt \<open>k\<close> is element \<open>k\<close>), and the
  refs and the state of the component instance that is currently on the page.
\<close>

record MapPage =
  globalGoogleMapsLoadingPromise :: "nat option"
  originalGmAuthFailure :: "hook option"
  gm_authFailure :: "hook option"
  google_maps :: bool
  scripts :: "script list"
  attempts :: "load_attempt list"
  instance_id :: nat
  mounted :: bool
  mapRef :: bool
  googleMap :: "GoogleMap option"
  markersRef :: "Marker list"
  infoWindowRef :: "InfoWindow option"
  mapLoadError :: "string option"

text \<open>
  A page on which the component has not been mounted yet; other code may have installed a
  hook, added scripts or loaded the SDK.
\<close>

definition page_initial :: "hook option \<Rightarrow> script list \<Rightarrow> bool \<Rightarrow> MapPage" where
  "page_initial h scr maps_present =
     \<lparr> globalGoogleMapsLoadingPromise = None, originalGmAuthFailure = None,
       gm_authFailure = h, google_maps = maps_present, scripts = scr, attempts = [],
       instance_id = 0, mounted = False, mapRef = False, googleMap = None, markersRef = [],
       infoWindowRef = None, mapLoadError = None \<rparr>"

definition key_error_msg :: string where
  "key_error_msg = ''Google Maps API Key is missing or incorrectly configured. Please ensure `process.env.API_KEY` is set in your environment variables and correctly bundled for client-side use. Map cannot be loaded.''"

definition auth_error_msg :: string where
  "auth_error_msg = ''Google Maps API Authentication Failed: Invalid API Key or configuration. Please check your API key, ensure Maps JavaScript API is enabled for your project, and billing is active (ai.google.dev/gemini-api/docs/billing).''"

definition not_found_msg :: string where
  "not_found_msg = ''Google Maps script loaded, but 'google.maps' object not found or not fully initialized.''"

definition script_error_msg :: "string \<Rightarrow> string" where
  "script_error_msg detail =
     ''Failed to load Google Maps script: '' @ detail @
     ''. This could be due to network issues or an incorrect script URL.''"

text \<open>\<^verbatim>\<open>document.getElementById(...)?.remove()\<close>: the first element with the id goes.\<close>

fun remove_by_id :: "string \<Rightarrow> script list \<Rightarrow> script list" where
  "remove_by_id i [] = []"
| "remove_by_id i (x # xs) = (if script_id x = i then xs else x # remove_by_id i xs)"

text \<open>
  \<^verbatim>\<open>setMapLoadError\<close> called from a handler of attempt \<open>k\<close>: it is the state setter of
  the instance that started the attempt, and does nothing once that instance is gone.
\<close>

definition set_error :: "nat \<Rightarrow> string \<Rightarrow> MapPage \<Rightarrow> MapPage" where
  "set_error k msg s =
     (if mounted s \<and> owner (attempts s ! k) = instance_id s
      then s\<lparr> mapLoadError := Some msg \<rparr> else s)"

text \<open>
  \<^verbatim>\<open>if (originalGmAuthFailure) window.gm_authFailure = originalGmAuthFailure; else delete
  window.gm_authFailure;\<close>
\<close>

definition restore_hook :: "MapPage \<Rightarrow> MapPage" where
  "restore_hook s =
     (case originalGmAuthFailure s of
        Some h \<Rightarrow> s\<lparr> gm_authFailure := Some h \<rparr>
      | None \<Rightarrow> s\<lparr> gm_authFailure := None \<rparr>)"

text \<open>\<^verbatim>\<open>resolve()\<close> and \<^verbatim>\<open>reject(...)\<close>: a promise that is settled stays as it is.\<close>

definition settle :: "nat \<Rightarrow> promise_state \<Rightarrow> MapPage \<Rightarrow> MapPage" where
  "settle k outcome s =
     (if promise (attempts s ! k) = Pending
      then s\<lparr> attempts := (attempts s)[k := (attempts s ! k)\<lparr> promise := outcome \<rparr>] \<rparr>
      else s)"

definition initMap :: "MapPage \<Rightarrow> MapPage" where
  "initMap s =
     (if mapRef s \<and> google_maps s \<and> googleMap s = None
      then s\<lparr> googleMap := Some \<lparr> view = DefaultView \<rparr>,
              infoWindowRef := Some \<lparr> content = None, anchor = None \<rparr>,
              mapLoadError := None \<rparr>
      else s)"

text \<open>
  The callbacks chained on the promise of attempt \<open>k\<close>, run once it is settled:
  \<^verbatim>\<open>.finally\<close> clears the global promise; \<^verbatim>\<open>.then(initMap)\<close> runs for the instance on
  the page when it subscribed and the promise is resolved (the refs of an instance that is
  gone are \<^verbatim>\<open>null\<close>, and its \<^verbatim>\<open>initMap\<close> does nothing).
\<close>

definition reactions :: "nat \<Rightarrow> MapPage \<Rightarrow> MapPage" where
  "reactions k s =
     (let s1 = s\<lparr> globalGoogleMapsLoadingPromise := None \<rparr>
      in if promise (attempts s1 ! k) = Resolved \<and> mounted s1 \<and>
            instance_id s1 \<in> set (subscribers (attempts s1 ! k))
         then initMap s1 else s1)"

text \<open>
  A handler of attempt \<open>k\<close> as one event of the page: the handler runs, and when it has
  settled the promise the chained callbacks follow.
\<close>

definition with_reactions :: "nat \<Rightarrow> (MapPage \<Rightarrow> MapPage) \<Rightarrow> MapPage \<Rightarrow> MapPage" where
  "with_reactions k handler s =
     (let s1 = handler s
      in if promise (attempts s ! k) = Pending \<and> promise (attempts s1 ! k) \<noteq> Pending
         then reactions k s1 else s1)"

text \<open>The closure that attempt \<open>k\<close> stores in \<^verbatim>\<open>window.gm_authFailure\<close>.\<close>

definition authFailure_override :: "nat \<Rightarrow> MapPage \<Rightarrow> MapPage" where
  "authFailure_override k s =
     (if isAuthFailureTriggered (attempts s ! k) then s
      else
        let s1 = s\<lparr> attempts := (attempts s)[k := (attempts s ! k)\<lparr> isAuthFailureTriggered := True \<rparr>] \<rparr>;
            s2 = set_error k auth_error_msg s1;
            s3 = restore_hook s2;
            s4 = s3\<lparr> originalGmAuthFailure := None \<rparr>
        in settle k (Rejected auth_error_msg) s4)"

text \<open>\<^verbatim>\<open>script.onload\<close> of attempt \<open>k\<close>.\<close>

definition script_onload_handler :: "nat \<Rightarrow> MapPage \<Rightarrow> MapPage" where
  "script_onload_handler k s =
     (if isAuthFailureTriggered (attempts s ! k) then s
      else
        let s1 = (if google_maps s then settle k Resolved s
                  else settle k (Rejected not_found_msg) (set_error k not_found_msg s));
            s2 = (if google_maps s1 \<and> originalGmAuthFailure s1 \<noteq> None
                  then s1\<lparr> gm_authFailure := originalGmAuthFailure s1 \<rparr>
                  else if google_maps s1 then s1\<lparr> gm_authFailure := None \<rparr>
                  else s1)
        in s2\<lparr> originalGmAuthFailure := None \<rparr>)"

text \<open>\<^verbatim>\<open>script.onerror\<close> of attempt \<open>k\<close>; \<open>detail\<close> is the text taken from the event.\<close>

definition script_onerror_handler :: "nat \<Rightarrow> string \<Rightarrow> MapPage \<Rightarrow> MapPage" where
  "script_onerror_handler k detail s =
     (if isAuthFailureTriggered (attempts s ! k) then s
      else
        let s1 = set_error k (script_error_msg detail) s;
            s2 = restore_hook s1;
            s3 = s2\<lparr> originalGmAuthFailure := None \<rparr>
        in settle k (Rejected (script_error_msg detail)) s3)"

text \<open>What \<^verbatim>\<open>loadGoogleMapsScript\<close> returns.\<close>

datatype load_result =
    AlreadyLoaded
  | InFlight nat
  | KeyRejected string
  | Started nat

text \<open>
  \<^verbatim>\<open>loadGoogleMapsScript\<close>, called by the instance on the page. \<open>API_KEY\<close> is
  \<^verbatim>\<open>process.env.API_KEY\<close>.
\<close>

definition loadGoogleMapsScript :: "string option \<Rightarrow> MapPage \<Rightarrow> load_result \<times> MapPage" where
  "loadGoogleMapsScript API_KEY s =
     (if google_maps s \<and> mapRef s \<and> googleMap s \<noteq> None then (AlreadyLoaded, s)
      else
        case globalGoogleMapsLoadingPromise s of
          Some k \<Rightarrow> (InFlight k, s)
        | None \<Rightarrow>
            (case API_KEY of
               None \<Rightarrow> (KeyRejected key_error_msg, s\<lparr> mapLoadError := Some key_error_msg \<rparr>)
             | Some googleMapsApiKey \<Rightarrow>
                 if \<not> truthy (Some googleMapsApiKey) \<or> googleMapsApiKey = ''process.env.API_KEY''
                 then (KeyRejected key_error_msg, s\<lparr> mapLoadError := Some key_error_msg \<rparr>)
                 else
                   let k = length (attempts s);
                       tag = \<lparr> script_id = ''google-maps-script'',
                               src = ''https://maps.googleapis.com/maps/api/js?key='' @ googleMapsApiKey \<rparr>
                   in (Started k,
                       s\<lparr> originalGmAuthFailure := gm_authFailure s,
                          gm_authFailure := Some (Override k),
                          attempts := attempts s @
                            [\<lparr> owner = instance_id s, subscribers = [],
                               isAuthFailureTriggered = False, promise = Pending \<rparr>],
                          scripts := remove_by_id ''google-maps-script'' (scripts s) @ [tag],
                          globalGoogleMapsLoadingPromise := Some k \<rparr>)))"

text \<open>
  The first effect of the component: \<^verbatim>\<open>setMapLoadError(null)\<close>, then
  \<^verbatim>\<open>loadGoogleMapsScript().then(initMap).catch(...)\<close>.
\<close>

definition subscribe :: "nat \<Rightarrow> MapPage \<Rightarrow> MapPage" where
  "subscribe k s =
     s\<lparr> attempts := (attempts s)[k := (attempts s ! k)\<lparr>
           subscribers := subscribers (attempts s ! k) @ [instance_id s] \<rparr>] \<rparr>"

definition mount_effect :: "string option \<Rightarrow> MapPage \<Rightarrow> MapPage" where
  "mount_effect API_KEY s =
     (case loadGoogleMapsScript API_KEY (s\<lparr> mapLoadError := None \<rparr>) of
        (AlreadyLoaded, s1) \<Rightarrow> initMap s1
      | (InFlight k, s1) \<Rightarrow> subscribe k s1
      | (KeyRejected msg, s1) \<Rightarrow> s1
      | (Started k, s1) \<Rightarrow> subscribe k s1)"

text \<open>A new instance of the component is put on the page and its effect runs.\<close>

definition Mount :: "string option \<Rightarrow> MapPage \<Rightarrow> MapPage" where
  "Mount API_KEY s =
     mount_effect API_KEY
       (s\<lparr> instance_id := Suc (instance_id s), mounted := True, mapRef := True,
           googleMap := None, markersRef := [], infoWindowRef := None, mapLoadError := None \<rparr>)"

text \<open>The cleanup of the first effect, run when the instance leaves the page.\<close>

definition unmount_cleanup :: "MapPage \<Rightarrow> MapPage" where
  "unmount_cleanup s =
     (let s1 = s\<lparr> googleMap := None, markersRef := [], infoWindowRef := None,
                  globalGoogleMapsLoadingPromise := None \<rparr>;
          s2 = (if gm_authFailure s1 \<noteq> originalGmAuthFailure s1
                then (restore_hook s1)\<lparr> originalGmAuthFailure := None \<rparr>
                else s1)
      in s2\<lparr> mounted := False, mapRef := False \<rparr>)"

text \<open>
  The events that come from outside: the script element of attempt \<open>k\<close> fires
  \<^verbatim>\<open>load\<close> (\<open>defines_maps\<close>: the script has defined \<^verbatim>\<open>google.maps\<close>) or \<^verbatim>\<open>error\<close>,
  and the SDK calls whatever \<^verbatim>\<open>window.gm_authFailure\<close> holds.
\<close>

definition script_onload :: "nat \<Rightarrow> bool \<Rightarrow> MapPage \<Rightarrow> MapPage" where
  "script_onload k defines_maps s =
     (if k < length (attempts s)
      then with_reactions k (script_onload_handler k)
             (s\<lparr> google_maps := google_maps s \<or> defines_maps \<rparr>)
      else s)"

definition script_onerror :: "nat \<Rightarrow> string \<Rightarrow> MapPage \<Rightarrow> MapPage" where
  "script_onerror k detail s =
     (if k < length (attempts s) then with_reactions k (script_onerror_handler k detail) s else s)"

definition auth_failure :: "MapPage \<Rightarrow> MapPage" where
  "auth_failure s =
     (case gm_authFailure s of
        Some (Override k) \<Rightarrow>
          if k < length (attempts s) then with_reactions k (authFailure_override k) s else s
      | _ \<Rightarrow> s)"


section \<open>MapVisualization: the marker-sync effect\<close>

definition created_icon :: "bool \<Rightarrow> MarkerIcon" where
  "created_icon is_selected =
     \<lparr> path = CIRCLE, fillColor = (if is_selected then ''#FF0000'' else ''#0000FF''),
       fillOpacity = Finite 0.8, strokeWeight = Finite 0, scale = Finite 8 \<rparr>"

definition selected_icon :: MarkerIcon where
  "selected_icon =
     \<lparr> path = CIRCLE, fillColor = ''#FF0000'', fillOpacity = Finite 0.9,
       strokeWeight = Finite 0, scale = Finite 10 \<rparr>"

definition unselected_icon :: MarkerIcon where
  "unselected_icon =
     \<lparr> path = CIRCLE, fillColor = ''#0000FF'', fillOpacity = Finite 0.8,
       strokeWeight = Finite 0, scale = Finite 8 \<rparr>"

text \<open>\<^verbatim>\<open>new window.google.maps.Marker({...})\<close> in the loop over the stores.\<close>

definition new_Marker :: "StoreData option \<Rightarrow> StoreData \<Rightarrow> Marker" where
  "new_Marker selected store =
     \<lparr> position = Some \<lparr> lat = latitude store, lng = longitude store \<rparr>,
       title = city store,
       icon = created_icon (case selected of None \<Rightarrow> False | Some sel \<Rightarrow> id' sel = id' store),
       click_store = store \<rparr>"

text \<open>
  The condition of the last loop. \<^verbatim>\<open>marker.getPosition()?.lat()\<close> is \<^verbatim>\<open>undefined\<close> for
  a marker without position, and \<^verbatim>\<open>undefined\<close> is strictly equal to no number.
\<close>

definition marker_matches :: "StoreData option \<Rightarrow> Marker \<Rightarrow> bool" where
  "marker_matches selected marker =
     (case selected of
        None \<Rightarrow> False
      | Some sel \<Rightarrow>
          title marker = city sel \<and>
          (case position marker of None \<Rightarrow> False | Some p \<Rightarrow> strict_eq (lat p) (latitude sel)) \<and>
          (case position marker of None \<Rightarrow> False | Some p \<Rightarrow> strict_eq (lng p) (longitude sel)))"

text \<open>
  The last loop of the effect, over \<^verbatim>\<open>markersRef.current\<close> from index \<open>i\<close> on: a marker
  that matches gets the selected icon and the info window (when there is one) is opened at
  it with the selected store's metrics; any other marker gets the unselected icon.
\<close>

fun restyle ::
  "StoreData option \<Rightarrow> nat \<Rightarrow> Marker list \<Rightarrow> InfoWindow option \<Rightarrow> Marker list \<times> InfoWindow option" where
  "restyle selected i [] info = ([], info)"
| "restyle selected i (marker # rest) info =
     (if marker_matches selected marker
      then
        let info1 = (case info of
                       None \<Rightarrow> None
                     | Some w \<Rightarrow> Some (w\<lparr> content := selected, anchor := Some i \<rparr>));
            (rest1, info2) = restyle selected (Suc i) rest info1
        in (marker\<lparr> icon := selected_icon \<rparr> # rest1, info2)
      else
        let (rest1, info2) = restyle selected (Suc i) rest info
        in (marker\<lparr> icon := unselected_icon \<rparr> # rest1, info2))"

text \<open>
  The effect that runs on every change of the stores or of the selection: nothing without
  a map; else the old markers go, one marker per store is created, the view is fitted to
  all stores when none is selected, and the markers are restyled.
\<close>

definition sync_markers :: "StoreData list \<Rightarrow> StoreData option \<Rightarrow> MapPage \<Rightarrow> MapPage" where
  "sync_markers store_list selected s =
     (case googleMap s of
        None \<Rightarrow> s
      | Some gmap \<Rightarrow>
          if \<not> google_maps s then s
          else
            let created = map (new_Marker selected) store_list;
                gmap1 = (if length store_list > 0 \<and> selected = None
                         then gmap\<lparr> view := FitBounds
                                (map (\<lambda>store. \<lparr> lat = latitude store, lng = longitude store \<rparr>) store_list) \<rparr>
                         else gmap);
                (restyled, info) = restyle selected 0 created (infoWindowRef s)
            in s\<lparr> markersRef := restyled, googleMap := Some gmap1, infoWindowRef := info \<rparr>)"

text \<open>The effect that pans to a newly selected store.\<close>

definition pan_effect :: "StoreData option \<Rightarrow> MapPage \<Rightarrow> MapPage" where
  "pan_effect selected s =
     (case (googleMap s, selected) of
        (Some gmap, Some sel) \<Rightarrow>
          s\<lparr> googleMap := Some (gmap\<lparr> view := PanTo \<lparr> lat = latitude sel, lng = longitude sel \<rparr> \<rparr>) \<rparr>
      | _ \<Rightarrow> s)"

text \<open>A click on marker \<open>i\<close>: the shell is told, and the info window opens at the marker.\<close>

definition marker_click :: "nat \<Rightarrow> MapPage \<Rightarrow> StoreData option \<times> MapPage" where
  "marker_click i s =
     (if i < length (markersRef s)
      then (Some (click_store (markersRef s ! i)),
            (case infoWindowRef s of
               None \<Rightarrow> s
             | Some w \<Rightarrow>
                 s\<lparr> infoWindowRef :=
                      Some (w\<lparr> content := Some (click_store (markersRef s ! i)), anchor := Some i \<rparr>) \<rparr>))
      else (None, s))"


section \<open>MapVisualization: the life of a page\<close>

text \<open>
  What can happen on a page: the shell puts the component on the page or takes it off (one
  instance at a time, as the shell renders it); a script element of attempt \<open>k\<close> fires
  \<^verbatim>\<open>load\<close> or \<^verbatim>\<open>error\<close>; the SDK reports an authentication failure; an effect of the
  mounted instance runs; a marker is clicked; other code installs a hook of its own or
  loads the SDK itself.
\<close>

datatype event =
    Mounted
  | Unmounted
  | ScriptLoaded nat bool
  | ScriptFailed nat string
  | AuthFailed
  | Synced "StoreData list" "StoreData option"
  | Panned "StoreData option"
  | Clicked nat
  | HookInstalled nat
  | SdkLoaded

fun step :: "string option \<Rightarrow> MapPage \<Rightarrow> event \<Rightarrow> MapPage" where
  "step API_KEY s Mounted = (if mounted s then s else Mount API_KEY s)"
| "step API_KEY s Unmounted = (if mounted s then unmount_cleanup s else s)"
| "step API_KEY s (ScriptLoaded k defines_maps) = script_onload k defines_maps s"
| "step API_KEY s (ScriptFailed k detail) = script_onerror k detail s"
| "step API_KEY s AuthFailed = auth_failure s"
| "step API_KEY s (Synced store_list selected) =
     (if mounted s then sync_markers store_list selected s else s)"
| "step API_KEY s (Panned selected) = (if mounted s then pan_effect selected s else s)"
| "step API_KEY s (Clicked i) = (if mounted s then snd (marker_click i s) else s)"
| "step API_KEY s (HookInstalled n) = s\<lparr> gm_authFailure := Some (Foreign n) \<rparr>"
| "step API_KEY s SdkLoaded = s\<lparr> google_maps := True \<rparr>"

text \<open>The page after a sequence of events, for a fixed \<^verbatim>\<open>process.env.API_KEY\<close>.\<close>

definition run :: "string option \<Rightarrow> MapPage \<Rightarrow> event list \<Rightarrow> MapPage" where
  "run API_KEY s events = foldl (step API_KEY) s events"

text \<open>A page on which this module has never started a load.\<close>

definition never_loaded :: "MapPage \<Rightarrow> bool" where
  "never_loaded s =
     (attempts s = [] \<and> globalGoogleMapsLoadingPromise s = None \<and> googleMap s = None)"


section \<open>Scenarios of the map component\<close>

text \<open>
  A page on which other code has installed an authentication-failure hook, and the same
  page after the component was mounted with a usable key and its script has loaded.
\<close>

definition hooked_page :: MapPage where
  "hooked_page = page_initial (Some (Foreign 0)) [] False"

definition ready_page :: MapPage where
  "ready_page = run (Some ''k3y'') hooked_page [Mounted, ScriptLoaded 0 True]"

text \<open>A second store in the same city at the same coordinate, with its own identifier.\<close>

definition jakarta_twin :: StoreData where
  "jakarta_twin = jakarta\<lparr> id' := ''store-2'', sales := Finite 50 \<rparr>"


section \<open>File ingestion\<close>

lemma digit_val_digit_char: "d < 10 \<Longrightarrow> digit_val (digit_char d) = d"
  by (simp add: digit_val_def digit_char_def)

lemma nat_of_string_of_nat: "nat_of_string (string_of_nat n) = n"
proof (induction n rule: string_of_nat.induct)
  case (1 n)
  show ?case
  proof (cases "n < 10")
    case True
    then show ?thesis
      by (subst string_of_nat.simps) (simp add: nat_of_string_def digit_val_digit_char)
  next
    case False
    with 1 show ?thesis
      by (subst string_of_nat.simps) (simp add: nat_of_string_def digit_val_digit_char)
  qed
qed

lemma string_of_nat_inj: "inj string_of_nat"
  by (rule inj_on_inverseI [where g = nat_of_string]) (rule nat_of_string_of_nat)

lemma map_index_length: "length (map_index f i xs) = length xs"
  by (induction xs arbitrary: i) auto

lemma map_index_nth: "k < length xs \<Longrightarrow> map_index f i xs ! k = f (xs ! k) (i + k)"
proof (induction xs arbitrary: i k)
  case Nil
  then show ?case by simp
next
  case (Cons x xs)
  then show ?case by (cases k) auto
qed

lemma map_index_ids:
  "map id' (map_index (store_of_row pf) 0 json) =
     map (\<lambda>k. ''store-'' @ string_of_nat k) [0..<length json]"
  by (rule nth_equalityI) (simp_all add: map_index_length map_index_nth store_of_row_def)

lemma ids_distinct: "distinct (map (\<lambda>k. ''store-'' @ string_of_nat k) [0..<n])"
proof -
  have "inj (\<lambda>k. ''store-'' @ string_of_nat k)"
    using string_of_nat_inj by (auto simp: inj_def)
  then show ?thesis
    by (simp add: distinct_map inj_on_def)
qed

text \<open>
  Claim C1. Whenever \<^verbatim>\<open>parseExcelFile\<close> resolves, the file was read and decoded into some
  rows \<open>json\<close>, and the resolved sequence has one record per row, in row order (record
  \<open>k\<close> is built from row \<open>k\<close>), with the identifiers \<open>store-0\<close>, \<open>store-1\<close>, ...,
  \<open>store-(n-1)\<close> in this order; the identifiers are pairwise different.
\<close>

theorem parseExcelFile_sequential_ids:
  assumes "parseExcelFile readAsArrayBuffer sheet_rows parseFloat file = Inr parsedData"
  shows "\<exists>data json.
           readAsArrayBuffer file = Some data \<and> sheet_rows data = Some json \<and>
           length parsedData = length json \<and>
           (\<forall>k < length json. parsedData ! k = store_of_row parseFloat (json ! k) k) \<and>
           map id' parsedData = map (\<lambda>k. ''store-'' @ string_of_nat k) [0..<length json] \<and>
           distinct (map id' parsedData)"
proof -
  from assms obtain data json where
    rd: "readAsArrayBuffer file = Some data" and sr: "sheet_rows data = Some json" and
    pd: "parsedData = map_index (store_of_row parseFloat) 0 json"
    by (auto simp: parseExcelFile_def split: option.splits)
  have "\<forall>k < length json. parsedData ! k = store_of_row parseFloat (json ! k) k"
    by (simp add: pd map_index_nth)
  moreover have "map id' parsedData = map (\<lambda>k. ''store-'' @ string_of_nat k) [0..<length json]"
    by (simp add: pd map_index_ids)
  moreover have "distinct (map id' parsedData)"
    unfolding pd map_index_ids by (rule ids_distinct)
  ultimately show ?thesis
    using rd sr by (simp add: pd map_index_length)
qed

theorem parseExcelFile_sequential_ids_witness:
  "parseExcelFile Some (\<lambda>_. Some [jakarta_row, bandung_row]) (\<lambda>c. c) () = Inr [jakarta, bandung] \<and>
   map id' [jakarta, bandung] = [''store-0'', ''store-1''] \<and>
   distinct (map id' [jakarta, bandung])"
proof -
  have run: "parseExcelFile Some (\<lambda>_. Some [jakarta_row, bandung_row]) (\<lambda>c. c) () = Inr [jakarta, bandung]"
    by code_simp
  have ids: "map id' [jakarta, bandung] = [''store-0'', ''store-1'']"
    by code_simp
  from parseExcelFile_sequential_ids [OF run] have "distinct (map id' [jakarta, bandung])"
    by blast
  with run ids show ?thesis by blast
qed


section \<open>The application shell\<close>

text \<open>
  Claim C7. Whatever the shell's state, \<^verbatim>\<open>handleDataUpload\<close> makes the uploaded records
  the whole store list and leaves no store selected; the location and the geolocation
  prompt are not touched. A resolved upload reaches the shell through exactly this
  function.
\<close>

theorem handleDataUpload_replaces_and_clears:
  "stores (handleDataUpload data app) = data \<and>
   selectedStore (handleDataUpload data app) = None \<and>
   userLocation (handleDataUpload data app) = userLocation app \<and>
   showGeolocationPrompt (handleDataUpload data app) = showGeolocationPrompt app \<and>
   handleUpload (Inr data) app = (None, handleDataUpload data app)"
  by (simp add: handleDataUpload_def handleUpload_def)


section \<open>Grounding citations\<close>

lemma present_None [simp]: "present None = []"
  by (simp add: present_def)

lemma push_if_truthy_present: "push_if_truthy uris u = uris @ present u"
  by (simp add: push_if_truthy_def present_def split: option.splits)

lemma snippets_loop_eq:
  "snippets_loop uris snippets =
     uris @ concat (map (\<lambda>snippet. present (snippet_uri snippet)) snippets)"
  unfolding snippets_loop_def
  by (induction snippets arbitrary: uris) (simp_all add: push_if_truthy_present)

lemma sources_loop_eq: "sources_loop uris sources = uris @ concat (map spec_source_uris sources)"
  unfolding sources_loop_def
  by (induction sources arbitrary: uris)
     (simp_all add: snippets_loop_eq spec_source_uris_def split: option.splits)

lemma chunk_step_eq: "chunk_step uris chunk = uris @ spec_chunk_uris chunk"
  by (simp add: chunk_step_def spec_chunk_uris_def push_if_truthy_present sources_loop_eq Let_def
           split: option.splits)

lemma chunks_loop_eq: "foldl chunk_step uris chunks = uris @ concat (map spec_chunk_uris chunks)"
  by (induction chunks arbitrary: uris) (simp_all add: chunk_step_eq)

text \<open>
  Claim C10. \<^verbatim>\<open>extractGroundingUris\<close> returns nothing for a response without
  candidates; otherwise it returns, for the grounding chunks of the first candidate in
  order, the web URI, then the maps URI, then the review-snippet URIs of the place-answer
  sources in order. A URI is present when the field exists and is not the empty string
  (the code tests truthiness). The candidates after the first do not occur in the result.
\<close>

theorem extractGroundingUris_first_candidate:
  "extractGroundingUris response =
     (case candidates response of
        None \<Rightarrow> []
      | Some [] \<Rightarrow> []
      | Some (c # others) \<Rightarrow> spec_candidate_uris c)"
  by (simp add: extractGroundingUris_def first_groundingChunks_def spec_candidate_uris_def
        chunks_loop_eq split: option.splits list.splits)


section \<open>The citation list of a stream\<close>

lemma set_add_distinct: "distinct acc \<Longrightarrow> distinct (foldl set_add acc xs)"
  by (induction xs arbitrary: acc) (simp_all add: set_add_def)

lemma set_add_fresh:
  "distinct zs \<Longrightarrow> set acc \<inter> set zs = {} \<Longrightarrow> foldl set_add acc zs = acc @ zs"
proof (induction zs arbitrary: acc)
  case Nil
  show ?case by simp
next
  case (Cons z zs)
  from Cons.prems have "set (acc @ [z]) \<inter> set zs = {}" "distinct zs" "z \<notin> set acc"
    by auto
  with Cons.IH [of "acc @ [z]"] show ?case
    by (simp add: set_add_def)
qed

lemma new_Set_distinct: "distinct (new_Set xs)"
  by (simp add: new_Set_def set_add_distinct)

lemma new_Set_absorb: "new_Set (new_Set xs @ ys) = new_Set (xs @ ys)"
proof -
  have "foldl set_add [] (new_Set xs) = new_Set xs"
    using set_add_fresh [of "new_Set xs" "[]"] by (simp add: new_Set_distinct)
  then show ?thesis
    by (simp add: new_Set_def)
qed

lemma set_add_first_occurrences:
  "foldl set_add acc xs = acc @ first_occurrences (filter (\<lambda>y. y \<notin> set acc) xs)"
proof (induction xs arbitrary: acc)
  case Nil
  show ?case by simp
next
  case (Cons x xs)
  show ?case
  proof (cases "x \<in> set acc")
    case True
    with Cons.IH [of acc] show ?thesis by (simp add: set_add_def)
  next
    case False
    have "filter (\<lambda>y. y \<notin> set (acc @ [x])) xs =
            filter (\<lambda>y. y \<noteq> x) (filter (\<lambda>y. y \<notin> set acc) xs)"
      by (auto intro: filter_cong)
    with False Cons.IH [of "acc @ [x]"] show ?thesis by (simp add: set_add_def)
  qed
qed

lemma new_Set_first_occurrences: "new_Set xs = first_occurrences xs"
  using set_add_first_occurrences [of "[]" xs] by (simp add: new_Set_def)

text \<open>
  The running list after the loop, started from a list without duplicates: the set of
  everything seen.
\<close>

lemma stream_loop_uris:
  "new_Set uris = uris \<Longrightarrow>
   fst (snd (stream_loop tx uris msgs chunks)) =
     new_Set (uris @ concat (map extractGroundingUris chunks))"
proof (induction chunks arbitrary: tx uris msgs)
  case Nil
  then show ?case by simp
next
  case (Cons chunk rest)
  define seen where "seen = new_Set (uris @ extractGroundingUris chunk)"
  have step: "(if length (extractGroundingUris chunk) > 0
               then new_Set (uris @ extractGroundingUris chunk) else uris) = seen"
    using Cons.prems by (simp add: seen_def)
  have inv: "new_Set seen = seen"
    using new_Set_absorb [of "uris @ extractGroundingUris chunk" "[]"] by (simp add: seen_def)
  have "new_Set (seen @ concat (map extractGroundingUris rest))
          = new_Set (uris @ concat (map extractGroundingUris (chunk # rest)))"
    by (simp add: seen_def new_Set_absorb)
  with Cons.IH [OF inv] step show ?case
    by (simp add: Let_def)
qed

lemma list_update_last: "msgs \<noteq> [] \<Longrightarrow> msgs[length msgs - 1 := m] = butlast msgs @ [m]"
proof -
  assume "msgs \<noteq> []"
  then have "msgs = butlast msgs @ [last msgs]" by simp
  then show ?thesis
    by (metis length_butlast list_update_length)
qed

lemma update_last_snoc:
  "role m = model \<Longrightarrow>
   update_last t u (pre @ [m]) = pre @ [m\<lparr> parts := Str t, groundingUris := Some u \<rparr>]"
  by (simp add: update_last_def list_update_last)

lemma replace_last_snoc: "replace_last m (pre @ [old]) = pre @ [m]"
  by (simp add: replace_last_def list_update_last)

text \<open>
  The loop touches the last message only: after at least one chunk it carries the running
  text and the running citation list.
\<close>

lemma stream_loop_msgs:
  "role m = model \<Longrightarrow>
   stream_loop tx uris (pre @ [m]) chunks = (t, u, ms) \<Longrightarrow>
   ms = pre @ [if chunks = [] then m else m\<lparr> parts := Str t, groundingUris := Some u \<rparr>]"
proof (induction chunks arbitrary: tx uris m)
  case Nil
  then show ?case by simp
next
  case (Cons chunk rest)
  define tx1 where "tx1 = (case text' chunk of None \<Rightarrow> tx
      | Some s \<Rightarrow> if truthy (Some s) then tx @ s else tx)"
  define uris1 where "uris1 = (if length (extractGroundingUris chunk) > 0
      then new_Set (uris @ extractGroundingUris chunk) else uris)"
  define m1 where "m1 = m\<lparr> parts := Str tx1, groundingUris := Some uris1 \<rparr>"
  have upd: "update_last tx1 uris1 (pre @ [m]) = pre @ [m1]"
    using Cons.prems(1) by (simp add: update_last_snoc m1_def)
  have run: "stream_loop tx1 uris1 (pre @ [m1]) rest = (t, u, ms)"
    using Cons.prems(2) upd by (simp add: Let_def tx1_def uris1_def)
  have rm: "role m1 = model" using Cons.prems(1) by (simp add: m1_def)
  show ?case
  proof (cases "rest = []")
    case True
    with run show ?thesis by (auto simp add: m1_def)
  next
    case False
    with Cons.IH [OF rm run] show ?thesis by (simp add: m1_def)
  qed
qed

text \<open>What a send that passes the guard leaves behind, in terms of the loop.\<close>

lemma handleSendMessage_unfold:
  assumes "chatRef st = Some chat" "trim (inputMessage st) \<noteq> []" "\<not> loading st"
    and "stream_loop [] [] (messages st @ [user_message (inputMessage st) t_send,
            model_message ''...'' t_send]) chunks = (t, u, ms)"
  shows "handleSendMessage selected location t_send (chunks, e) t_fail st =
     \<lparr> messages = (case e of Completed \<Rightarrow> ms
                   | Errored \<Rightarrow> replace_last (model_message apology_msg t_fail) ms),
       inputMessage = [], loading = False,
       chatRef = Some (chat\<lparr> sent := sent chat @
          [\<lparr> message = inputMessage st, config = sendMessageConfig selected location \<rparr>] \<rparr>) \<rparr>"
  using assms by (simp add: handleSendMessage_def Let_def)

lemma handleSendMessage_messages:
  assumes "chatRef st = Some chat" "trim (inputMessage st) \<noteq> []" "\<not> loading st"
  shows "\<exists>t u. stream_loop [] [] (messages st @ [user_message (inputMessage st) t_send,
            model_message ''...'' t_send]) chunks =
          (t, u, messages st @ [user_message (inputMessage st) t_send,
             if chunks = [] then model_message ''...'' t_send
             else (model_message ''...'' t_send)\<lparr> parts := Str t, groundingUris := Some u \<rparr>])"
proof -
  obtain t u ms where run: "stream_loop [] [] ((messages st @ [user_message (inputMessage st) t_send]) @
            [model_message ''...'' t_send]) chunks = (t, u, ms)"
    using prod_cases3 by blast
  have "role (model_message ''...'' t_send) = model"
    by (simp add: model_message_def)
  from stream_loop_msgs [OF this run] run show ?thesis
    by auto
qed

text \<open>Without a session, with a blank input or while a send is pending, nothing is sent.\<close>

lemma handleSendMessage_guard:
  "chatRef st = None \<or> trim (inputMessage st) = [] \<or> loading st \<Longrightarrow>
   handleSendMessage selected location t_send reply t_fail st = st"
  by (auto simp: handleSendMessage_def split: option.splits)

text \<open>
  Claim C2. A send that passes the guard issues one request, carrying the typed text,
  whose location bias follows the priority rule: the coordinate of the selected store when
  a store is selected; else the user's coordinate when there is one; else no
  \<open>toolConfig\<close> at all.
\<close>

theorem handleSendMessage_location_bias:
  assumes "chatRef st = Some chat" "trim (inputMessage st) \<noteq> []" "\<not> loading st"
  shows "\<exists>chat' request.
           chatRef (handleSendMessage selected location t_send reply t_fail st) = Some chat' \<and>
           sent chat' = sent chat @ [request] \<and>
           message request = inputMessage st \<and>
           (\<forall>s. selected = Some s \<longrightarrow>
                toolConfig (config request) =
                  Some \<lparr> retrievalConfig =
                           \<lparr> latLng = \<lparr> latitude = latitude s, longitude = longitude s \<rparr> \<rparr> \<rparr>) \<and>
           (\<forall>l. selected = None \<and> location = Some l \<longrightarrow>
                toolConfig (config request) = Some \<lparr> retrievalConfig = \<lparr> latLng = l \<rparr> \<rparr>) \<and>
           (selected = None \<and> location = None \<longrightarrow> toolConfig (config request) = None)"
proof -
  obtain chunks e where reply: "reply = (chunks, e)"
    by (cases reply)
  obtain t u ms where run: "stream_loop [] [] (messages st @ [user_message (inputMessage st) t_send,
            model_message ''...'' t_send]) chunks = (t, u, ms)"
    using prod_cases3 by blast
  show ?thesis
    unfolding reply handleSendMessage_unfold [OF assms run]
    by (simp add: sendMessageConfig_def retrievalConfig_for_def split: option.splits)
qed

text \<open>
  The scenario of the specification: the position of the browser arrived first, then
  Jakarta was selected, then a message is sent. The bias is Jakarta's coordinate.
\<close>

theorem handleSendMessage_location_bias_witness:
  "(\<exists>chat' request.
     chatRef (App_send (handleStoreSelect (Some jakarta)
                (geolocation_success browser_position
                  (handleDataUpload [jakarta, bandung] App_initial)))
              1 ([chunk_one, chunk_two], Completed) 2 ready_chatbot) = Some chat' \<and>
     sent chat' = [request] \<and>
     toolConfig (config request) =
       Some \<lparr> retrievalConfig = \<lparr> latLng = \<lparr> latitude = Finite (-6.2), longitude = Finite 106.8 \<rparr> \<rparr> \<rparr>) \<and>
   (\<exists>chat' request.
     chatRef (handleSendMessage None (Some browser_position) 1 ([], Completed) 2 ready_chatbot) =
       Some chat' \<and>
     sent chat' = [request] \<and>
     toolConfig (config request) = Some \<lparr> retrievalConfig = \<lparr> latLng = browser_position \<rparr> \<rparr>) \<and>
   (\<exists>chat' request.
     chatRef (handleSendMessage None None 1 ([], Errored) 2 ready_chatbot) = Some chat' \<and>
     sent chat' = [request] \<and>
     toolConfig (config request) = None)"
proof -
  have ref: "chatRef ready_chatbot =
      Some \<lparr> chat_model = ''flash'', tools = [googleSearch, googleMaps], sent = [] \<rparr>"
    by (simp add: ready_chatbot_def mount_def init_effect_def Chatbot_initial_def)
  have inp: "trim (inputMessage ready_chatbot) \<noteq> []"
    by code_simp
  have idle: "\<not> loading ready_chatbot"
    by (simp add: ready_chatbot_def mount_def init_effect_def Chatbot_initial_def)
  have sel: "selectedStore (handleStoreSelect (Some jakarta)
                (geolocation_success browser_position
                  (handleDataUpload [jakarta, bandung] App_initial))) = Some jakarta"
    by (simp add: handleStoreSelect_def)
  have coord: "latitude jakarta = Finite (-6.2)" "longitude jakarta = Finite 106.8"
    by (simp_all add: jakarta_def)
  from handleSendMessage_location_bias [OF ref inp idle, of "Some jakarta"
      "userLocation (handleStoreSelect (Some jakarta)
                (geolocation_success browser_position
                  (handleDataUpload [jakarta, bandung] App_initial)))"
      1 "([chunk_one, chunk_two], Completed)" 2]
  have first: "\<exists>chat' request.
     chatRef (App_send (handleStoreSelect (Some jakarta)
                (geolocation_success browser_position
                  (handleDataUpload [jakarta, bandung] App_initial)))
              1 ([chunk_one, chunk_two], Completed) 2 ready_chatbot) = Some chat' \<and>
     sent chat' = [request] \<and>
     toolConfig (config request) =
       Some \<lparr> retrievalConfig = \<lparr> latLng = \<lparr> latitude = Finite (-6.2), longitude = Finite 106.8 \<rparr> \<rparr> \<rparr>"
    unfolding App_send_def sel by (auto simp: coord)
  from handleSendMessage_location_bias [OF ref inp idle, of None "Some browser_position"
      1 "([], Completed)" 2]
  have second: "\<exists>chat' request.
     chatRef (handleSendMessage None (Some browser_position) 1 ([], Completed) 2 ready_chatbot) =
       Some chat' \<and>
     sent chat' = [request] \<and>
     toolConfig (config request) = Some \<lparr> retrievalConfig = \<lparr> latLng = browser_position \<rparr> \<rparr>"
    by auto
  from handleSendMessage_location_bias [OF ref inp idle, of None None 1 "([], Errored)" 2]
  have third: "\<exists>chat' request.
     chatRef (handleSendMessage None None 1 ([], Errored) 2 ready_chatbot) = Some chat' \<and>
     sent chat' = [request] \<and>
     toolConfig (config request) = None"
    by auto
  from first second third show ?thesis by blast
qed

text \<open>
  Claim C3. After a send whose stream ends normally, the citation list the assistant
  message is rendered with is the concatenation of the URIs extracted from the chunks, in
  order, with every duplicate after the first occurrence removed. After at least one chunk
  this list is the message's \<open>groundingUris\<close> field itself (without a chunk the field is
  never written, and nothing is rendered).
\<close>

theorem citations_first_seen_order:
  assumes "chatRef st = Some chat" "trim (inputMessage st) \<noteq> []" "\<not> loading st"
  shows "rendered_uris (last (messages
             (handleSendMessage selected location t_send (chunks, Completed) t_fail st))) =
           first_occurrences (concat (map extractGroundingUris chunks)) \<and>
         (chunks \<noteq> [] \<longrightarrow>
           groundingUris (last (messages
             (handleSendMessage selected location t_send (chunks, Completed) t_fail st))) =
             Some (first_occurrences (concat (map extractGroundingUris chunks))))"
proof -
  from handleSendMessage_messages [OF assms, of t_send chunks] obtain t u where
    run: "stream_loop [] [] (messages st @ [user_message (inputMessage st) t_send,
            model_message ''...'' t_send]) chunks =
          (t, u, messages st @ [user_message (inputMessage st) t_send,
             if chunks = [] then model_message ''...'' t_send
             else (model_message ''...'' t_send)\<lparr> parts := Str t, groundingUris := Some u \<rparr>])"
    by blast
  have "new_Set ([] :: string list) = []"
    by (simp add: new_Set_def)
  from stream_loop_uris [OF this, of "[]" "messages st @ [user_message (inputMessage st) t_send,
            model_message ''...'' t_send]" chunks]
  have u: "u = first_occurrences (concat (map extractGroundingUris chunks))"
    by (simp add: run new_Set_first_occurrences)
  show ?thesis
    unfolding handleSendMessage_unfold [OF assms run]
    by (simp add: u rendered_uris_def model_message_def)
qed

theorem citations_first_seen_order_witness:
  "groundingUris (last (messages
      (handleSendMessage None None 1 ([chunk_one, chunk_two], Completed) 2 ready_chatbot))) =
    Some [''https://a.example/x'', ''https://b.example/y'', ''https://c.example/z'']"
proof -
  have ref: "chatRef ready_chatbot =
      Some \<lparr> chat_model = ''flash'', tools = [googleSearch, googleMaps], sent = [] \<rparr>"
    by (simp add: ready_chatbot_def mount_def init_effect_def Chatbot_initial_def)
  have inp: "trim (inputMessage ready_chatbot) \<noteq> []"
    by code_simp
  have idle: "\<not> loading ready_chatbot"
    by (simp add: ready_chatbot_def mount_def init_effect_def Chatbot_initial_def)
  have ne: "[chunk_one, chunk_two] \<noteq> []"
    by simp
  have val: "first_occurrences (concat (map extractGroundingUris [chunk_one, chunk_two])) =
      [''https://a.example/x'', ''https://b.example/y'', ''https://c.example/z'']"
    by code_simp
  from citations_first_seen_order [OF ref inp idle, of None None 1 "[chunk_one, chunk_two]" 2] ne
  show ?thesis
    unfolding val by blast
qed

text \<open>
  Claim C4. When the stream fails, after any number of chunks, the message list is the
  list before the send, the user's message, and in the place of the placeholder the fixed
  apology with no citation list: nothing of the streamed text remains. The component is
  idle again, and the session has received exactly one request: nothing was sent again.
\<close>

theorem stream_failure_discards_partial_text:
  assumes "chatRef st = Some chat" "trim (inputMessage st) \<noteq> []" "\<not> loading st"
  shows "messages (handleSendMessage selected location t_send (chunks, Errored) t_fail st) =
           messages st @
             [\<lparr> role = user, parts = Str (inputMessage st), timestamp = t_send,
                 groundingUris = None, functionCalls = None \<rparr>,
              \<lparr> role = model, parts = Str apology_msg, timestamp = t_fail,
                 groundingUris = None, functionCalls = None \<rparr>] \<and>
         \<not> loading (handleSendMessage selected location t_send (chunks, Errored) t_fail st) \<and>
         (\<exists>chat' request.
            chatRef (handleSendMessage selected location t_send (chunks, Errored) t_fail st) = Some chat' \<and>
            sent chat' = sent chat @ [request])"
proof -
  from handleSendMessage_messages [OF assms, of t_send chunks] obtain t u where
    run: "stream_loop [] [] (messages st @ [user_message (inputMessage st) t_send,
            model_message ''...'' t_send]) chunks =
          (t, u, messages st @ [user_message (inputMessage st) t_send,
             if chunks = [] then model_message ''...'' t_send
             else (model_message ''...'' t_send)\<lparr> parts := Str t, groundingUris := Some u \<rparr>])"
    by blast
  have "replace_last m (messages st @ [user_message (inputMessage st) t_send, old]) =
          messages st @ [user_message (inputMessage st) t_send, m]" for m old
    using replace_last_snoc [of m "messages st @ [user_message (inputMessage st) t_send]" old]
    by simp
  then show ?thesis
    unfolding handleSendMessage_unfold [OF assms run]
    by (simp add: model_message_def user_message_def)
qed

theorem stream_failure_discards_partial_text_witness:
  "messages (handleSendMessage None None 1 ([chunk_one, chunk_two], Errored) 2 ready_chatbot) =
     [\<lparr> role = user, parts = Str ''Which store is closest?'', timestamp = 1,
         groundingUris = None, functionCalls = None \<rparr>,
      \<lparr> role = model, parts = Str apology_msg, timestamp = 2,
         groundingUris = None, functionCalls = None \<rparr>]"
proof -
  have ref: "chatRef ready_chatbot =
      Some \<lparr> chat_model = ''flash'', tools = [googleSearch, googleMaps], sent = [] \<rparr>"
    by (simp add: ready_chatbot_def mount_def init_effect_def Chatbot_initial_def)
  have inp: "trim (inputMessage ready_chatbot) \<noteq> []"
    by code_simp
  have idle: "\<not> loading ready_chatbot"
    by (simp add: ready_chatbot_def mount_def init_effect_def Chatbot_initial_def)
  have before: "messages ready_chatbot = []" "inputMessage ready_chatbot = ''Which store is closest?''"
    by (simp_all add: ready_chatbot_def mount_def init_effect_def Chatbot_initial_def)
  from stream_failure_discards_partial_text [OF ref inp idle, of None None 1 "[chunk_one, chunk_two]" 2]
  show ?thesis
    by (simp add: before)
qed

text \<open>
  Claim C5. With \<^verbatim>\<open>process.env.API_KEY\<close> absent (or empty) at mount, the effect creates no
  session, the message list consists of the one fixed error message, and the text input
  and the send button are disabled; a send in this state changes nothing.
\<close>

theorem missing_credential_disables_chat:
  assumes "\<not> truthy API_KEY"
  shows "chatRef (mount API_KEY GEMINI_MODEL_FLASH sdk_ok now) = None \<and>
         messages (mount API_KEY GEMINI_MODEL_FLASH sdk_ok now) =
           [\<lparr> role = model, parts = Str key_missing_msg, timestamp = now,
               groundingUris = None, functionCalls = None \<rparr>] \<and>
         input_disabled (mount API_KEY GEMINI_MODEL_FLASH sdk_ok now) \<and>
         send_disabled (mount API_KEY GEMINI_MODEL_FLASH sdk_ok now) \<and>
         handleSendMessage selected location t_send reply t_fail
             (mount API_KEY GEMINI_MODEL_FLASH sdk_ok now) =
           mount API_KEY GEMINI_MODEL_FLASH sdk_ok now"
proof -
  from assms have "mount API_KEY GEMINI_MODEL_FLASH sdk_ok now =
      \<lparr> messages = [model_message key_missing_msg now], inputMessage = [], loading = False,
        chatRef = None \<rparr>"
    by (cases API_KEY) (simp_all add: mount_def init_effect_def Chatbot_initial_def)
  then show ?thesis
    by (simp add: model_message_def input_disabled_def send_disabled_def handleSendMessage_def)
qed

theorem missing_credential_disables_chat_witness:
  "chatRef (mount None ''flash'' (\<lambda>_. True) 7) = None \<and>
   length (messages (mount None ''flash'' (\<lambda>_. True) 7)) = 1 \<and>
   input_disabled (mount None ''flash'' (\<lambda>_. True) 7)"
proof -
  have "\<not> truthy None"
    by simp
  from missing_credential_disables_chat [OF this, of "''flash''" "\<lambda>_. True" 7]
  show ?thesis
    by simp
qed


section \<open>The map component without a usable key\<close>

text \<open>
  With a missing or placeholder key no load attempt is ever made, so no promise is ever in
  flight and no map is ever created, whatever happens on the page.
\<close>

lemma loadGoogleMapsScript_unusable_key:
  assumes "\<not> truthy API_KEY \<or> API_KEY = Some ''process.env.API_KEY''"
    and "globalGoogleMapsLoadingPromise s = None" "googleMap s = None"
  shows "loadGoogleMapsScript API_KEY s =
           (KeyRejected key_error_msg, s\<lparr> mapLoadError := Some key_error_msg \<rparr>)"
  using assms by (cases API_KEY) (auto simp: loadGoogleMapsScript_def)

lemma Mount_unusable_key:
  assumes "\<not> truthy API_KEY \<or> API_KEY = Some ''process.env.API_KEY''"
    and "globalGoogleMapsLoadingPromise s = None"
  shows "Mount API_KEY s =
           s\<lparr> instance_id := Suc (instance_id s), mounted := True, mapRef := True,
              googleMap := None, markersRef := [], infoWindowRef := None,
              mapLoadError := Some key_error_msg \<rparr>"
  unfolding Mount_def mount_effect_def
  by (subst loadGoogleMapsScript_unusable_key [OF assms(1)]) (simp_all add: assms(2))

lemma step_never_loaded:
  assumes bad: "\<not> truthy API_KEY \<or> API_KEY = Some ''process.env.API_KEY''"
    and nl: "never_loaded s"
  shows "never_loaded (step API_KEY s e)"
proof (cases e)
  case Mounted
  with nl show ?thesis
    by (simp add: never_loaded_def Mount_unusable_key [OF bad])
next
  case Unmounted
  with nl show ?thesis
    by (simp add: never_loaded_def unmount_cleanup_def restore_hook_def Let_def
          split: option.splits)
next
  case (ScriptLoaded k defines_maps)
  with nl show ?thesis
    by (simp add: never_loaded_def script_onload_def)
next
  case (ScriptFailed k detail)
  with nl show ?thesis
    by (simp add: never_loaded_def script_onerror_def)
next
  case AuthFailed
  with nl show ?thesis
    by (simp add: never_loaded_def auth_failure_def split: option.splits hook.splits)
next
  case (Synced store_list selected)
  with nl show ?thesis
    by (simp add: never_loaded_def sync_markers_def)
next
  case (Panned selected)
  with nl show ?thesis
    by (simp add: never_loaded_def pan_effect_def)
next
  case (Clicked i)
  with nl show ?thesis
    by (simp add: never_loaded_def marker_click_def split: option.splits)
next
  case (HookInstalled n)
  with nl show ?thesis by (simp add: never_loaded_def)
next
  case SdkLoaded
  with nl show ?thesis by (simp add: never_loaded_def)
qed

lemma run_never_loaded:
  assumes "\<not> truthy API_KEY \<or> API_KEY = Some ''process.env.API_KEY''"
  shows "never_loaded s \<Longrightarrow> never_loaded (run API_KEY s events)"
  unfolding run_def
  by (induction events arbitrary: s) (simp_all add: step_never_loaded [OF assms])

text \<open>
  Claim C6. Let \<^verbatim>\<open>process.env.API_KEY\<close> be absent, empty or the placeholder text. On the
  page after any sequence of events, \<^verbatim>\<open>loadGoogleMapsScript\<close> rejects with the fixed
  configuration message and changes nothing but the error state, which it sets to that
  message: no script element is created or removed, no load attempt is recorded, the hook
  is not touched. Mounting the component therefore ends in the error state with the
  document's scripts as they were.
\<close>

theorem unusable_maps_key_rejects_without_load:
  assumes "\<not> truthy API_KEY \<or> API_KEY = Some ''process.env.API_KEY''"
    and "s = run API_KEY (page_initial h scr maps_present) events"
  shows "loadGoogleMapsScript API_KEY s =
           (KeyRejected key_error_msg, s\<lparr> mapLoadError := Some key_error_msg \<rparr>) \<and>
         (\<not> mounted s \<longrightarrow>
            mapLoadError (step API_KEY s Mounted) = Some key_error_msg \<and>
            scripts (step API_KEY s Mounted) = scripts s \<and>
            attempts (step API_KEY s Mounted) = [] \<and>
            gm_authFailure (step API_KEY s Mounted) = gm_authFailure s)"
proof -
  have "never_loaded (page_initial h scr maps_present)"
    by (simp add: never_loaded_def page_initial_def)
  from run_never_loaded [OF assms(1) this, of events] have nl: "never_loaded s"
    by (simp add: assms(2))
  then have "loadGoogleMapsScript API_KEY s =
           (KeyRejected key_error_msg, s\<lparr> mapLoadError := Some key_error_msg \<rparr>)"
    by (simp add: loadGoogleMapsScript_unusable_key [OF assms(1)] never_loaded_def)
  moreover from nl have "\<not> mounted s \<longrightarrow>
            mapLoadError (step API_KEY s Mounted) = Some key_error_msg \<and>
            scripts (step API_KEY s Mounted) = scripts s \<and>
            attempts (step API_KEY s Mounted) = [] \<and>
            gm_authFailure (step API_KEY s Mounted) = gm_authFailure s"
    by (simp add: Mount_unusable_key [OF assms(1)] never_loaded_def)
  ultimately show ?thesis by blast
qed

theorem unusable_maps_key_rejects_without_load_witness:
  "fst (loadGoogleMapsScript (Some ''process.env.API_KEY'')
         (run (Some ''process.env.API_KEY'') hooked_page [Mounted, AuthFailed, Unmounted])) =
     KeyRejected key_error_msg \<and>
   mapLoadError (run (Some ''process.env.API_KEY'') hooked_page
                   [Mounted, AuthFailed, Unmounted, Mounted]) = Some key_error_msg \<and>
   scripts (run (Some ''process.env.API_KEY'') hooked_page
                   [Mounted, AuthFailed, Unmounted, Mounted]) = []"
proof -
  have bad: "\<not> truthy (Some ''process.env.API_KEY'') \<or>
      Some ''process.env.API_KEY'' = Some ''process.env.API_KEY''"
    by simp
  let ?s = "run (Some ''process.env.API_KEY'') hooked_page [Mounted, AuthFailed, Unmounted]"
  have s: "?s = run (Some ''process.env.API_KEY'') (page_initial (Some (Foreign 0)) [] False)
      [Mounted, AuthFailed, Unmounted]"
    by (simp add: hooked_page_def)
  have idle: "\<not> mounted ?s" "scripts ?s = []"
    by code_simp+
  have next_run: "run (Some ''process.env.API_KEY'') hooked_page [Mounted, AuthFailed, Unmounted, Mounted] =
      step (Some ''process.env.API_KEY'') ?s Mounted"
    by (simp add: run_def)
  from unusable_maps_key_rejects_without_load [OF bad s] idle
  show ?thesis
    unfolding next_run by simp
qed


section \<open>The authentication-failure hook\<close>

text \<open>
  The hook is saved before it is overridden, and each of the three handlers that end a
  load puts it back while the instance stays on the page.
\<close>

lemma hook_saved_before_override:
  "gm_authFailure (run (Some ''k3y'') hooked_page [Mounted]) = Some (Override 0) \<and>
   originalGmAuthFailure (run (Some ''k3y'') hooked_page [Mounted]) = Some (Foreign 0)"
  by code_simp

lemma hook_restored_by_handlers:
  "gm_authFailure (run (Some ''k3y'') hooked_page [Mounted, ScriptLoaded 0 True]) = Some (Foreign 0) \<and>
   gm_authFailure (run (Some ''k3y'') hooked_page [Mounted, ScriptFailed 0 ''offline'']) = Some (Foreign 0) \<and>
   gm_authFailure (run (Some ''k3y'') hooked_page [Mounted, AuthFailed]) = Some (Foreign 0) \<and>
   gm_authFailure (run (Some ''k3y'') hooked_page [Mounted, Unmounted]) = Some (Foreign 0)"
  by code_simp

text \<open>
  Claim C8 does not hold of the code. The cleanup compares \<^verbatim>\<open>window.gm_authFailure\<close> with
  the saved hook, which every handler has reset to \<^verbatim>\<open>undefined\<close>; a hook of other code
  is different from \<^verbatim>\<open>undefined\<close>, so the cleanup takes it for the override and deletes it.
  On the page with a hook of other code: after mount, successful load (the hook is back)
  and unmount, the hook is gone; so it is after a mount without a key, where it was never
  overridden; a late \<^verbatim>\<open>load\<close> event after an unmount deletes the hook that the cleanup
  had restored; and a script that loads without defining \<^verbatim>\<open>google.maps\<close> forgets the
  saved hook and leaves the override in place.
\<close>

theorem unmount_deletes_foreign_hook:
  "gm_authFailure hooked_page = Some (Foreign 0) \<and>
   gm_authFailure (run (Some ''k3y'') hooked_page [Mounted, ScriptLoaded 0 True]) = Some (Foreign 0) \<and>
   gm_authFailure (run (Some ''k3y'') hooked_page [Mounted, ScriptLoaded 0 True, Unmounted]) = None \<and>
   gm_authFailure (run None hooked_page [Mounted, Unmounted]) = None \<and>
   gm_authFailure (run (Some ''k3y'') hooked_page [Mounted, Unmounted, ScriptLoaded 0 True]) = None \<and>
   gm_authFailure (run (Some ''k3y'') hooked_page [Mounted, ScriptLoaded 0 False]) = Some (Override 0) \<and>
   originalGmAuthFailure (run (Some ''k3y'') hooked_page [Mounted, ScriptLoaded 0 False]) = None"
  by code_simp


section \<open>Marker highlighting\<close>

lemma restyle_markers:
  "restyle selected i ms info = (r, w) \<Longrightarrow>
   r = map (\<lambda>m. m\<lparr> icon := (if marker_matches selected m then selected_icon else unselected_icon) \<rparr>) ms"
  by (induction ms arbitrary: i info r w) (auto simp: Let_def split: prod.splits if_splits)

lemma new_Marker_fields:
  "title (new_Marker selected store) = city store"
  "position (new_Marker selected store) = Some \<lparr> lat = latitude store, lng = longitude store \<rparr>"
  by (simp_all add: new_Marker_def)

lemma marker_matches_new_Marker:
  "marker_matches selected (new_Marker selected' store) =
     (\<exists>sel. selected = Some sel \<and> city store = city sel \<and>
            strict_eq (latitude store) (latitude sel) \<and>
            strict_eq (longitude store) (longitude sel))"
  by (cases selected) (simp_all add: marker_matches_def new_Marker_def)

lemma icons_differ: "selected_icon \<noteq> unselected_icon"
  by (simp add: selected_icon_def unselected_icon_def)

lemma sync_markers_markersRef:
  assumes "googleMap s = Some gmap" "google_maps s"
  shows "markersRef (sync_markers store_list selected s) =
     map (\<lambda>store. (new_Marker selected store)\<lparr> icon :=
            (if marker_matches selected (new_Marker selected store)
             then selected_icon else unselected_icon) \<rparr>) store_list"
proof -
  obtain restyled info where
    r: "restyle selected 0 (map (new_Marker selected) store_list) (infoWindowRef s) = (restyled, info)"
    by (cases "restyle selected 0 (map (new_Marker selected) store_list) (infoWindowRef s)")
  from restyle_markers [OF r]
  have "restyled = map (\<lambda>store. (new_Marker selected store)\<lparr> icon :=
            (if marker_matches selected (new_Marker selected store)
             then selected_icon else unselected_icon) \<rparr>) store_list"
    by (simp add: comp_def)
  with assms r show ?thesis
    by (simp add: sync_markers_def Let_def)
qed

text \<open>A selected store whose coordinate is not a number highlights no marker at all.\<close>

lemma nan_selection_highlights_nothing:
  assumes "googleMap s = Some gmap" "google_maps s" "latitude sel = NaN"
    and "i < length store_list"
  shows "icon (markersRef (sync_markers store_list (Some sel) s) ! i) = unselected_icon"
  using assms(3,4)
  by (simp add: sync_markers_markersRef [OF assms(1,2)] marker_matches_new_Marker strict_eq_def)

text \<open>
  Claim C9. When the marker-sync effect runs on a map, there is one marker per store, and
  marker \<open>i\<close> ends with the selected icon exactly when a store is selected whose city is
  the marker's title and whose latitude and longitude are strictly equal (\<^verbatim>\<open>===\<close>) to
  the marker's position; every other marker ends with the unselected icon. The identifier
  plays no part: when the selected store is store \<open>i\<close> and store \<open>j\<close> has the same
  city and coordinate, markers \<open>i\<close> and \<open>j\<close> both end with the selected icon.
\<close>

theorem markers_highlighted_by_title_and_coordinate:
  assumes "googleMap s = Some gmap" "google_maps s"
  shows "length (markersRef (sync_markers store_list selected s)) = length store_list \<and>
         (\<forall>i < length store_list.
            title (markersRef (sync_markers store_list selected s) ! i) = city (store_list ! i) \<and>
            position (markersRef (sync_markers store_list selected s) ! i) =
              Some \<lparr> lat = latitude (store_list ! i), lng = longitude (store_list ! i) \<rparr> \<and>
            (icon (markersRef (sync_markers store_list selected s) ! i) = selected_icon) =
              (\<exists>sel. selected = Some sel \<and> city (store_list ! i) = city sel \<and>
                     strict_eq (latitude (store_list ! i)) (latitude sel) \<and>
                     strict_eq (longitude (store_list ! i)) (longitude sel)) \<and>
            (icon (markersRef (sync_markers store_list selected s) ! i) \<noteq> selected_icon \<longrightarrow>
               icon (markersRef (sync_markers store_list selected s) ! i) = unselected_icon)) \<and>
         (\<forall>i < length store_list. \<forall>j < length store_list.
            selected = Some (store_list ! i) \<and>
            city (store_list ! j) = city (store_list ! i) \<and>
            strict_eq (latitude (store_list ! j)) (latitude (store_list ! i)) \<and>
            strict_eq (longitude (store_list ! j)) (longitude (store_list ! i)) \<longrightarrow>
            icon (markersRef (sync_markers store_list selected s) ! i) = selected_icon \<and>
            icon (markersRef (sync_markers store_list selected s) ! j) = selected_icon)"
proof -
  note m = sync_markers_markersRef [OF assms, of store_list selected]
  have len: "length (markersRef (sync_markers store_list selected s)) = length store_list"
    by (simp add: m)
  have each: "\<forall>i < length store_list.
            title (markersRef (sync_markers store_list selected s) ! i) = city (store_list ! i) \<and>
            position (markersRef (sync_markers store_list selected s) ! i) =
              Some \<lparr> lat = latitude (store_list ! i), lng = longitude (store_list ! i) \<rparr> \<and>
            (icon (markersRef (sync_markers store_list selected s) ! i) = selected_icon) =
              (\<exists>sel. selected = Some sel \<and> city (store_list ! i) = city sel \<and>
                     strict_eq (latitude (store_list ! i)) (latitude sel) \<and>
                     strict_eq (longitude (store_list ! i)) (longitude sel)) \<and>
            (icon (markersRef (sync_markers store_list selected s) ! i) \<noteq> selected_icon \<longrightarrow>
               icon (markersRef (sync_markers store_list selected s) ! i) = unselected_icon)"
    using icons_differ by (simp add: m marker_matches_new_Marker new_Marker_fields)
  have twins: "\<forall>i < length store_list. \<forall>j < length store_list.
            selected = Some (store_list ! i) \<and>
            city (store_list ! j) = city (store_list ! i) \<and>
            strict_eq (latitude (store_list ! j)) (latitude (store_list ! i)) \<and>
            strict_eq (longitude (store_list ! j)) (longitude (store_list ! i)) \<longrightarrow>
            icon (markersRef (sync_markers store_list selected s) ! i) = selected_icon \<and>
            icon (markersRef (sync_markers store_list selected s) ! j) = selected_icon"
  proof (intro allI impI, elim conjE)
    fix i j
    assume i: "i < length store_list" and j: "j < length store_list"
      and sel: "selected = Some (store_list ! i)"
      and c: "city (store_list ! j) = city (store_list ! i)"
      and la: "strict_eq (latitude (store_list ! j)) (latitude (store_list ! i))"
      and lo: "strict_eq (longitude (store_list ! j)) (longitude (store_list ! i))"
    from la lo have self: "strict_eq (latitude (store_list ! i)) (latitude (store_list ! i))"
      "strict_eq (longitude (store_list ! i)) (longitude (store_list ! i))"
      by (simp_all add: strict_eq_def)
    from each i have "(icon (markersRef (sync_markers store_list selected s) ! i) = selected_icon) =
              (\<exists>sel. selected = Some sel \<and> city (store_list ! i) = city sel \<and>
                     strict_eq (latitude (store_list ! i)) (latitude sel) \<and>
                     strict_eq (longitude (store_list ! i)) (longitude sel))"
      by blast
    with sel self have at_i: "icon (markersRef (sync_markers store_list selected s) ! i) = selected_icon"
      by simp
    from each j have "(icon (markersRef (sync_markers store_list selected s) ! j) = selected_icon) =
              (\<exists>sel. selected = Some sel \<and> city (store_list ! j) = city sel \<and>
                     strict_eq (latitude (store_list ! j)) (latitude sel) \<and>
                     strict_eq (longitude (store_list ! j)) (longitude sel))"
      by blast
    with sel c la lo have "icon (markersRef (sync_markers store_list selected s) ! j) = selected_icon"
      by simp
    with at_i show "icon (markersRef (sync_markers store_list selected s) ! i) = selected_icon \<and>
            icon (markersRef (sync_markers store_list selected s) ! j) = selected_icon"
      by simp
  qed
  from len each twins show ?thesis by blast
qed

theorem markers_highlighted_by_title_and_coordinate_witness:
  "icon (markersRef (sync_markers [jakarta, bandung, jakarta_twin] (Some jakarta_twin) ready_page) ! 0) =
     selected_icon \<and>
   icon (markersRef (sync_markers [jakarta, bandung, jakarta_twin] (Some jakarta_twin) ready_page) ! 1) =
     unselected_icon \<and>
   icon (markersRef (sync_markers [jakarta, bandung, jakarta_twin] (Some jakarta_twin) ready_page) ! 2) =
     selected_icon \<and>
   id' jakarta \<noteq> id' jakarta_twin"
proof -
  have gm: "googleMap ready_page = Some \<lparr> view = DefaultView \<rparr>"
    by code_simp
  have sdk: "google_maps ready_page"
    by code_simp
  have same: "city jakarta = city jakarta_twin" "city bandung \<noteq> city jakarta_twin"
    "strict_eq (latitude jakarta) (latitude jakarta_twin)"
    "strict_eq (longitude jakarta) (longitude jakarta_twin)"
    "strict_eq (latitude jakarta_twin) (latitude jakarta_twin)"
    "strict_eq (longitude jakarta_twin) (longitude jakarta_twin)"
    "id' jakarta \<noteq> id' jakarta_twin"
    by (simp_all add: jakarta_def jakarta_twin_def bandung_def strict_eq_def)
  let ?ms = "markersRef (sync_markers [jakarta, bandung, jakarta_twin] (Some jakarta_twin) ready_page)"
  from markers_highlighted_by_title_and_coordinate [OF gm sdk,
      of "[jakarta, bandung, jakarta_twin]" "Some jakarta_twin"]
  have each: "\<forall>i < 3. (icon (?ms ! i) = selected_icon) =
              (city ([jakarta, bandung, jakarta_twin] ! i) = city jakarta_twin \<and>
               strict_eq (latitude ([jakarta, bandung, jakarta_twin] ! i)) (latitude jakarta_twin) \<and>
               strict_eq (longitude ([jakarta, bandung, jakarta_twin] ! i)) (longitude jakarta_twin))"
    and other: "\<forall>i < 3. icon (?ms ! i) \<noteq> selected_icon \<longrightarrow> icon (?ms ! i) = unselected_icon"
    by simp_all
  from each same have "icon (?ms ! 0) = selected_icon"
    by simp
  moreover from each same have "icon (?ms ! 1) \<noteq> selected_icon"
    by simp
  with other have "icon (?ms ! 1) = unselected_icon"
    by simp
  moreover from each same have "icon (?ms ! 2) = selected_icon"
    by simp
  ultimately show ?thesis
    using same(7) by blast
qed

end
